theory Spec2Isabelle
  imports Complex_Main "HOL-Library.Stream"
begin

section \<open>The simplified hockey environment of alternative_train.py\<close>

text \<open>
  The class \<open>HockeyEnv\<close> built by \<open>create_hockey_environment\<close> is embedded with explicit
  state passing: every method takes the object \<open>self\<close> as a record and returns the
  updated record beside its Python return value. The numpy arrays of shape (2,) are pairs,
  and their float64 components are read as real numbers: rounding is outside this model.
  The method \<open>step\<close> has no raise statement and no check of its argument, so its model
  is a total function without an error branch; an action is a pair of reals, which is what
  an array of shape (2,) of finite floats holds. An array can also hold NaN and the two
  infinities, and \<open>step\<close> takes such an action as it takes any other: the two lines of
  \<open>step\<close> that write the goalie position are therefore modelled a second time, on float
  values with NaN and the infinities (\<open>step_goalie_pos\<close> below), and shown to agree with
  the first model on finite values.
\<close>

subsection \<open>Arrays of shape (2,)\<close>

type_synonym vec2 = "real \<times> real"

definition vadd :: "vec2 \<Rightarrow> vec2 \<Rightarrow> vec2" where
  "vadd u v = (fst u + fst v, snd u + snd v)"

definition vsub :: "vec2 \<Rightarrow> vec2 \<Rightarrow> vec2" where
  "vsub u v = (fst u - fst v, snd u - snd v)"

definition vscale :: "vec2 \<Rightarrow> real \<Rightarrow> vec2" where
  "vscale v c = (fst v * c, snd v * c)"

text \<open>
  \<open>np.clip(a, lo, hi)\<close> is \<open>minimum(maximum(a, lo), hi)\<close>, element by element; here on
  finite values, and as \<open>np_clip\<close> below on all float values.
\<close>

definition clip :: "real \<Rightarrow> real \<Rightarrow> real \<Rightarrow> real" where
  "clip x lo hi = min (max x lo) hi"

definition vclip :: "vec2 \<Rightarrow> vec2 \<Rightarrow> vec2 \<Rightarrow> vec2" where
  "vclip v lo hi = (clip (fst v) (fst lo) (fst hi), clip (snd v) (snd lo) (snd hi))"

text \<open>\<open>np.linalg.norm\<close> of a vector: the Euclidean norm.\<close>

definition norm2 :: "vec2 \<Rightarrow> real" where
  "norm2 v = sqrt ((fst v)\<^sup>2 + (snd v)\<^sup>2)"

subsection \<open>Random numbers\<close>

text \<open>
  \<open>np.random.uniform\<close> reads the generator that numpy keeps for the whole process. Its
  state is taken as the stream of samples of [0, 1) it is going to deliver; a draw takes
  the head and leaves the tail. \<open>uniform(low, high)\<close> is
  \<open>low + (high - low) * random_sample()\<close>.
\<close>

type_synonym global_rng = "real stream"

definition uniform :: "real \<Rightarrow> real \<Rightarrow> global_rng \<Rightarrow> real \<times> global_rng" where
  "uniform low high g = (low + (high - low) * shd g, stl g)"

subsection \<open>The object\<close>

text \<open>
  \<open>np_random\<close> is the generator that \<open>gym.Env\<close> keeps in the instance, read as the seed it
  was made from: \<open>gym.Env.reset(seed=k)\<close> replaces it when a seed is given and leaves it
  alone otherwise. The other fields are the attributes that \<open>reset\<close> assigns.
\<close>

record env =
  np_random :: "int option"
  goalie_pos :: vec2
  puck_pos :: vec2
  puck_vel :: vec2
  episode_step :: int
  max_steps :: int
  puck_shot :: bool

text \<open>What \<open>step\<close> returns: observation, reward, done, the constant False, info.\<close>

record transition =
  observation :: "real list"
  reward :: real
  terminated :: bool
  truncated :: bool
  info :: "string \<rightharpoonup> string"

definition gym_reset :: "int option \<Rightarrow> env \<Rightarrow> env" where
  "gym_reset seed self =
     (case seed of None \<Rightarrow> self | Some k \<Rightarrow> self\<lparr>np_random := Some k\<rparr>)"

definition get_observation :: "env \<Rightarrow> real list" where
  "get_observation self =
     [fst (goalie_pos self), snd (goalie_pos self),
      fst (puck_pos self), snd (puck_pos self),
      fst (puck_vel self), snd (puck_vel self),
      0, 0, 0, 0, 0, 0]"

definition check_save :: "env \<Rightarrow> bool" where
  "check_save self =
     (let distance = norm2 (vsub (puck_pos self) (goalie_pos self));
          in_goal_area = (fst (puck_pos self) > 6 \<and> \<bar>snd (puck_pos self)\<bar> < 1.0)
      in distance < 1.0 \<and> in_goal_area)"

definition reset ::
  "int option \<Rightarrow> env \<Rightarrow> global_rng \<Rightarrow> (real list \<times> (string \<rightharpoonup> string)) \<times> env \<times> global_rng"
where
  "reset seed self g =
     (let self = gym_reset seed self;
          self = self\<lparr>goalie_pos := (0.0, 0.0)\<rparr>;
          self = self\<lparr>puck_pos := (- 5.0, 0.0)\<rparr>;
          (lateral, g) = uniform (- 0.5) 0.5 g;
          self = self\<lparr>puck_vel := (2.0, lateral)\<rparr>;
          self = self\<lparr>episode_step := 0\<rparr>;
          self = self\<lparr>max_steps := 300\<rparr>;
          self = self\<lparr>puck_shot := False\<rparr>
      in ((get_observation self, Map.empty), self, g))"

text \<open>
  \<open>__init__\<close> declares the two spaces and calls \<open>self.reset()\<close>. Before that call the
  object has none of the attributes of the record; \<open>reset\<close> assigns every one of them, so
  the values they are given here are never read.
\<close>

definition HockeyEnv_init :: "global_rng \<Rightarrow> env \<times> global_rng" where
  "HockeyEnv_init g =
     snd (reset None
       \<lparr>np_random = None, goalie_pos = (0, 0), puck_pos = (0, 0), puck_vel = (0, 0),
        episode_step = 0, max_steps = 0, puck_shot = False\<rparr> g)"

subsection \<open>One step\<close>

text \<open>Lines 57 and 58: the goalie moves by the action scaled by 0.1 and is clipped.\<close>

definition apply_action :: "vec2 \<Rightarrow> env \<Rightarrow> env" where
  "apply_action action self =
     (let self = self\<lparr>goalie_pos := vadd (goalie_pos self) (vscale action 0.1)\<rparr>
      in self\<lparr>goalie_pos := vclip (goalie_pos self) (- 2.0, - 1.5) (2.0, 1.5)\<rparr>)"

text \<open>Lines 61 and 62: the puck moves by its velocity over 0.02 s, then friction.\<close>

definition update_puck :: "env \<Rightarrow> env" where
  "update_puck self =
     (let self = self\<lparr>puck_pos := vadd (puck_pos self) (vscale (puck_vel self) 0.02)\<rparr>
      in self\<lparr>puck_vel := vscale (puck_vel self) 0.99\<rparr>)"

text \<open>Lines 65 to 71: the reward starts at 0 and gets the proximity term.\<close>

definition proximity_reward :: "env \<Rightarrow> real" where
  "proximity_reward self =
     (let rew = 0;
          distance_to_puck = norm2 (vsub (puck_pos self) (goalie_pos self))
      in rew + max 0 (10 - distance_to_puck) * 0.1)"

text \<open>
  Lines 74 to 85: the if/elif chain over the end conditions. It takes the reward, done
  and info of the lines before and returns them as the chain leaves them.
\<close>

definition end_conditions ::
  "env \<Rightarrow> real \<times> bool \<times> (string \<rightharpoonup> string) \<Rightarrow> real \<times> bool \<times> (string \<rightharpoonup> string)"
where
  "end_conditions self rdi =
     (case rdi of (r, d, i) \<Rightarrow>
        if \<bar>fst (puck_pos self)\<bar> > 8 then (50, True, i(''result'' \<mapsto> ''miss''))
        else if \<bar>snd (puck_pos self)\<bar> < 0.5 \<and> fst (puck_pos self) > 7
          then (- 200, True, i(''result'' \<mapsto> ''goal''))
        else if check_save self then (200, True, i(''result'' \<mapsto> ''save''))
        else (r, d, i))"

text \<open>Lines 87 to 92: the counter and the step limit.\<close>

definition step_limit ::
  "env \<Rightarrow> real \<times> bool \<times> (string \<rightharpoonup> string) \<Rightarrow> real \<times> bool \<times> (string \<rightharpoonup> string)"
where
  "step_limit self rdi =
     (case rdi of (r, d, i) \<Rightarrow>
        if episode_step self \<ge> max_steps self
          then (- 10, True, i(''result'' \<mapsto> ''timeout''))
        else (r, d, i))"

definition step :: "vec2 \<Rightarrow> env \<Rightarrow> transition \<times> env" where
  "step action self =
     (let self = apply_action action self;
          self = update_puck self;
          rdi = (proximity_reward self, False, Map.empty);
          rdi = end_conditions self rdi;
          self = self\<lparr>episode_step := episode_step self + 1\<rparr>;
          rdi = step_limit self rdi
      in (\<lparr>observation = get_observation self, reward = fst rdi,
           terminated = fst (snd rdi), truncated = False, info = snd (snd rdi)\<rparr>, self))"

subsection \<open>Sequences of steps\<close>

text \<open>The object after a sequence of \<open>step\<close> calls, and what the calls returned.\<close>

fun steps :: "vec2 list \<Rightarrow> env \<Rightarrow> env" where
  "steps [] self = self"
| "steps (a # as) self = steps as (snd (step a self))"

fun run :: "vec2 list \<Rightarrow> env \<Rightarrow> transition list" where
  "run [] self = []"
| "run (a # as) self = fst (step a self) # run as (snd (step a self))"

text \<open>
  The episode loop of \<open>train_goalie\<close> (lines 185 to 194): the policy is asked for an
  action on the last observation, the environment steps, and the loop leaves when done or
  truncated is set. The result is the list of what the steps returned.
\<close>

function run_episode :: "(real list \<Rightarrow> vec2) \<Rightarrow> real list \<Rightarrow> env \<Rightarrow> transition list" where
  "run_episode policy obs self =
     (let r = step (policy obs) self in
      if terminated (fst r) \<or> truncated (fst r) then [fst r]
      else fst r # run_episode policy (observation (fst r)) (snd r))"
  by pat_completeness auto
termination
  by (relation "measure (\<lambda>(policy, obs, self). nat (max_steps self - episode_step self))")
    (auto simp: step_def Let_def step_limit_def apply_action_def update_puck_def
      split: prod.splits if_splits)

declare run_episode.simps [simp del]

text \<open>The policy that always answers with the zero action.\<close>

definition zero_policy :: "real list \<Rightarrow> vec2" where
  "zero_policy obs = (0, 0)"

text \<open>
  An object for the examples: goalie and puck where the example wants them, the puck at
  rest, the counter at \<open>k\<close>, and \<open>max_steps\<close> as \<open>reset\<close> sets it.
\<close>

definition probe :: "vec2 \<Rightarrow> vec2 \<Rightarrow> int \<Rightarrow> env" where
  "probe goalie puck k =
     \<lparr>np_random = None, goalie_pos = goalie, puck_pos = puck, puck_vel = (0, 0),
      episode_step = k, max_steps = 300, puck_shot = False\<rparr>"

subsection \<open>The goalie move on float values\<close>

text \<open>
  A float64 is NaN, an infinity or a finite value, the finite ones read as reals. The
  operations are numpy's on such values, as far as lines 57 and 58 use them: the product
  with a Python float, the sum, and \<open>np.maximum\<close> and \<open>np.minimum\<close> against a finite bound.
  All of them return NaN on a NaN operand; so does \<open>np.clip\<close>, which is
  \<open>minimum(maximum(a, lo), hi)\<close>.
\<close>

datatype npfloat = NaN | NegInf | Fin real | PosInf

fun np_mul :: "npfloat \<Rightarrow> real \<Rightarrow> npfloat" where
  "np_mul NaN c = NaN"
| "np_mul (Fin x) c = Fin (x * c)"
| "np_mul PosInf c = (if c > 0 then PosInf else if c < 0 then NegInf else NaN)"
| "np_mul NegInf c = (if c > 0 then NegInf else if c < 0 then PosInf else NaN)"

fun np_add :: "npfloat \<Rightarrow> npfloat \<Rightarrow> npfloat" where
  "np_add NaN y = NaN"
| "np_add x NaN = NaN"
| "np_add (Fin x) (Fin y) = Fin (x + y)"
| "np_add PosInf NegInf = NaN"
| "np_add NegInf PosInf = NaN"
| "np_add PosInf y = PosInf"
| "np_add x PosInf = PosInf"
| "np_add NegInf y = NegInf"
| "np_add x NegInf = NegInf"

fun np_maximum :: "npfloat \<Rightarrow> real \<Rightarrow> npfloat" where
  "np_maximum NaN lo = NaN"
| "np_maximum NegInf lo = Fin lo"
| "np_maximum (Fin x) lo = Fin (max x lo)"
| "np_maximum PosInf lo = PosInf"

fun np_minimum :: "npfloat \<Rightarrow> real \<Rightarrow> npfloat" where
  "np_minimum NaN hi = NaN"
| "np_minimum NegInf hi = NegInf"
| "np_minimum (Fin x) hi = Fin (min x hi)"
| "np_minimum PosInf hi = Fin hi"

definition np_clip :: "npfloat \<Rightarrow> real \<Rightarrow> real \<Rightarrow> npfloat" where
  "np_clip x lo hi = np_minimum (np_maximum x lo) hi"

text \<open>\<open>lo <= x <= hi\<close> on a float: false on NaN, and on an infinity for finite bounds.\<close>

fun in_range :: "npfloat \<Rightarrow> real \<Rightarrow> real \<Rightarrow> bool" where
  "in_range (Fin x) lo hi = (lo \<le> x \<and> x \<le> hi)"
| "in_range NaN lo hi = False"
| "in_range NegInf lo hi = False"
| "in_range PosInf lo hi = False"

text \<open>An array of finite floats as an array of floats.\<close>

definition np_of :: "vec2 \<Rightarrow> npfloat \<times> npfloat" where
  "np_of v = (Fin (fst v), Fin (snd v))"

text \<open>
  Lines 57 and 58 of \<open>step\<close>, the only lines that write \<open>goalie_pos\<close>, on an action and a
  goalie position of float values; and the goalie position after a sequence of \<open>step\<close>
  calls.
\<close>

definition step_goalie_pos :: "npfloat \<times> npfloat \<Rightarrow> npfloat \<times> npfloat \<Rightarrow> npfloat \<times> npfloat" where
  "step_goalie_pos action goalie =
     (let goalie = (np_add (fst goalie) (np_mul (fst action) 0.1),
                    np_add (snd goalie) (np_mul (snd action) 0.1))
      in (np_clip (fst goalie) (- 2.0) 2.0, np_clip (snd goalie) (- 1.5) 1.5))"

fun steps_goalie_pos :: "(npfloat \<times> npfloat) list \<Rightarrow> npfloat \<times> npfloat \<Rightarrow> npfloat \<times> npfloat" where
  "steps_goalie_pos [] goalie = goalie"
| "steps_goalie_pos (a # as) goalie = steps_goalie_pos as (step_goalie_pos a goalie)"

text \<open>No component is NaN; both components are within the arena bounds.\<close>

definition no_nan :: "npfloat \<times> npfloat \<Rightarrow> bool" where
  "no_nan v = (fst v \<noteq> NaN \<and> snd v \<noteq> NaN)"

definition in_arena :: "npfloat \<times> npfloat \<Rightarrow> bool" where
  "in_arena goalie = (in_range (fst goalie) (- 2.0) 2.0 \<and> in_range (snd goalie) (- 1.5) 1.5)"

section \<open>Each phase of a step\<close>

lemma apply_action_fields:
  "goalie_pos (apply_action a s) =
     (clip (fst (goalie_pos s) + fst a * 0.1) (- 2) 2,
      clip (snd (goalie_pos s) + snd a * 0.1) (- 1.5) 1.5)"
  "puck_pos (apply_action a s) = puck_pos s"
  "puck_vel (apply_action a s) = puck_vel s"
  "episode_step (apply_action a s) = episode_step s"
  "max_steps (apply_action a s) = max_steps s"
  by (simp_all add: apply_action_def vadd_def vscale_def vclip_def Let_def)

lemma update_puck_fields:
  "goalie_pos (update_puck s) = goalie_pos s"
  "puck_pos (update_puck s) =
     (fst (puck_pos s) + fst (puck_vel s) * 0.02, snd (puck_pos s) + snd (puck_vel s) * 0.02)"
  "puck_vel (update_puck s) = (fst (puck_vel s) * 0.99, snd (puck_vel s) * 0.99)"
  "episode_step (update_puck s) = episode_step s"
  "max_steps (update_puck s) = max_steps s"
  by (simp_all add: update_puck_def vadd_def vscale_def Let_def)

lemma step_env:
  "snd (step a s) = (update_puck (apply_action a s))\<lparr>episode_step := episode_step s + 1\<rparr>"
  by (simp add: step_def Let_def apply_action_fields update_puck_fields)

lemma step_fields:
  "goalie_pos (snd (step a s)) =
     (clip (fst (goalie_pos s) + fst a * 0.1) (- 2) 2,
      clip (snd (goalie_pos s) + snd a * 0.1) (- 1.5) 1.5)"
  "puck_pos (snd (step a s)) =
     (fst (puck_pos s) + fst (puck_vel s) * 0.02, snd (puck_pos s) + snd (puck_vel s) * 0.02)"
  "puck_vel (snd (step a s)) = (fst (puck_vel s) * 0.99, snd (puck_vel s) * 0.99)"
  "episode_step (snd (step a s)) = episode_step s + 1"
  "max_steps (snd (step a s)) = max_steps s"
  by (simp_all add: step_env apply_action_fields update_puck_fields)

lemma step_observation:
  "observation (fst (step a s)) = get_observation (snd (step a s))"
  by (simp add: step_def Let_def get_observation_def)

lemma step_truncated: "truncated (fst (step a s)) = False"
  by (simp add: step_def Let_def)

lemma reset_fields:
  "goalie_pos (fst (snd (reset seed self g))) = (0, 0)"
  "puck_pos (fst (snd (reset seed self g))) = (- 5, 0)"
  "puck_vel (fst (snd (reset seed self g))) = (2, - 0.5 + shd g)"
  "episode_step (fst (snd (reset seed self g))) = 0"
  "max_steps (fst (snd (reset seed self g))) = 300"
  by (simp_all add: reset_def uniform_def Let_def)

lemma init_fields:
  "goalie_pos (fst (HockeyEnv_init g)) = (0, 0)"
  "puck_pos (fst (HockeyEnv_init g)) = (- 5, 0)"
  "puck_vel (fst (HockeyEnv_init g)) = (2, - 0.5 + shd g)"
  "episode_step (fst (HockeyEnv_init g)) = 0"
  "max_steps (fst (HockeyEnv_init g)) = 300"
  by (simp_all add: HockeyEnv_init_def reset_fields)

lemma probe_fields [simp]:
  "goalie_pos (probe gl pk k) = gl"
  "puck_pos (probe gl pk k) = pk"
  "puck_vel (probe gl pk k) = (0, 0)"
  "episode_step (probe gl pk k) = k"
  "max_steps (probe gl pk k) = 300"
  by (simp_all add: probe_def)

text \<open>The end conditions and the proximity term do not read the step counter.\<close>

lemma check_save_step_count [simp]:
  "check_save (s\<lparr>episode_step := k\<rparr>) = check_save s"
  by (simp add: check_save_def)

lemma end_conditions_step_count [simp]:
  "end_conditions (s\<lparr>episode_step := k\<rparr>) rdi = end_conditions s rdi"
  by (cases rdi) (simp add: end_conditions_def)

lemma proximity_reward_step_count [simp]:
  "proximity_reward (s\<lparr>episode_step := k\<rparr>) = proximity_reward s"
  by (simp add: proximity_reward_def)

text \<open>
  What a step returns as reward, done and info is the step limit applied to what the
  chain of end conditions left, both read on the state the step leaves behind.
\<close>

lemma step_outcome:
  "(reward (fst (step a s)), terminated (fst (step a s)), info (fst (step a s))) =
     step_limit (snd (step a s))
       (end_conditions (snd (step a s)) (proximity_reward (snd (step a s)), False, Map.empty))"
  by (simp add: step_def Let_def apply_action_fields update_puck_fields)

section \<open>The goalie stays in the arena\<close>

lemma step_goalie_arena:
  "- 2 \<le> fst (goalie_pos (snd (step a s))) \<and> fst (goalie_pos (snd (step a s))) \<le> 2 \<and>
   - 1.5 \<le> snd (goalie_pos (snd (step a s))) \<and> snd (goalie_pos (snd (step a s))) \<le> 1.5"
  by (simp add: step_fields clip_def min_def max_def)

lemma np_clip_in_range:
  "lo \<le> hi \<Longrightarrow> x \<noteq> NaN \<Longrightarrow> in_range (np_clip x lo hi) lo hi"
  by (cases x) (simp_all add: np_clip_def)

lemma np_clip_nan [simp]: "np_clip NaN lo hi = NaN"
  by (simp add: np_clip_def)

lemma np_add_fin_nan: "np_add (Fin x) y = NaN \<longleftrightarrow> y = NaN"
  by (cases y) simp_all

lemma np_add_nan_right [simp]: "np_add x NaN = NaN"
  by (cases x) simp_all

lemma np_mul_tenth_nan: "np_mul x 0.1 = NaN \<longleftrightarrow> x = NaN"
  by (cases x) simp_all

lemma in_range_fin: "in_range v lo hi \<Longrightarrow> \<exists>x. v = Fin x"
  by (cases v) simp_all

lemma step_goalie_pos_in_arena:
  assumes "no_nan action" "in_arena goalie"
  shows "in_arena (step_goalie_pos action goalie)"
proof -
  from assms(2) have "\<exists>gx. fst goalie = Fin gx" "\<exists>gz. snd goalie = Fin gz"
    by (auto simp: in_arena_def dest: in_range_fin)
  then obtain gx gz where g: "goalie = (Fin gx, Fin gz)"
    by (cases goalie) auto
  from assms(1) have "np_add (Fin gx) (np_mul (fst action) 0.1) \<noteq> NaN"
    "np_add (Fin gz) (np_mul (snd action) 0.1) \<noteq> NaN"
    by (simp_all add: no_nan_def np_add_fin_nan np_mul_tenth_nan)
  then show ?thesis
    by (simp add: g step_goalie_pos_def in_arena_def Let_def np_clip_in_range)
qed

lemma steps_goalie_pos_in_arena:
  "list_all no_nan as \<Longrightarrow> in_arena goalie \<Longrightarrow> in_arena (steps_goalie_pos as goalie)"
  by (induction as arbitrary: goalie) (simp_all add: step_goalie_pos_in_arena)

lemma step_goalie_pos_real:
  "step_goalie_pos (np_of a) (np_of (goalie_pos s)) = np_of (goalie_pos (snd (step a s)))"
  by (simp add: step_goalie_pos_def np_of_def Let_def step_fields np_clip_def clip_def)

lemma step_goalie_pos_nan:
  "fst action = NaN \<or> fst goalie = NaN \<Longrightarrow> fst (step_goalie_pos action goalie) = NaN"
  "snd action = NaN \<or> snd goalie = NaN \<Longrightarrow> snd (step_goalie_pos action goalie) = NaN"
  by (auto simp: step_goalie_pos_def Let_def)

text \<open>
  Claim C7, as stated, says that after every call to \<open>step\<close>, for every action value, the
  goalie's x lies in [-2.0, 2.0] and its z in [-1.5, 1.5]. \<open>step\<close> does not check its
  action, and a NaN goes through the sum and through \<open>np.clip\<close>: the action (NaN, 0.0) on
  the goalie that \<open>reset\<close> leaves at (0, 0) gives the goalie position (NaN, 0.0), whose x
  is in no interval, and the x stays NaN in the steps that follow, whatever their actions.
\<close>

theorem c7_nan_action_counterexample:
  "np_of (goalie_pos (fst (HockeyEnv_init (sconst 0.5)))) = (Fin 0, Fin 0) \<and>
   step_goalie_pos (NaN, Fin 0) (np_of (goalie_pos (fst (HockeyEnv_init (sconst 0.5)))))
     = (NaN, Fin 0) \<and>
   \<not> in_range (fst (step_goalie_pos (NaN, Fin 0)
        (np_of (goalie_pos (fst (HockeyEnv_init (sconst 0.5))))))) (- 2.0) 2.0 \<and>
   steps_goalie_pos [(NaN, Fin 0), (Fin 1, Fin 1), (Fin (- 1), Fin 0)]
     (np_of (goalie_pos (fst (HockeyEnv_init (sconst 0.5))))) = (NaN, Fin 0.1)"
  by (simp add: init_fields np_of_def step_goalie_pos_def np_clip_def Let_def)

text \<open>
  Claim C7, amended. After every call to \<open>step\<close> whose action has no NaN component, from a
  goalie position within the arena bounds (where \<open>reset\<close> puts it and every such step leaves
  it), the goalie's x lies in [-2.0, 2.0] and its z in [-1.5, 1.5]: this holds for
  components of any magnitude, the infinities included, and after any sequence of such
  actions. A NaN component of the action, or of the goalie position, makes that coordinate
  of the goalie NaN. On finite values the float model of the two lines is \<open>step\<close> itself,
  whose goalie is within the bounds after every call.
\<close>

theorem c7_goalie_within_arena_unless_nan:
  "(list_all no_nan as \<and> in_arena goalie \<longrightarrow> in_arena (steps_goalie_pos as goalie)) \<and>
   (no_nan action \<longrightarrow>
      in_arena (step_goalie_pos action (np_of (goalie_pos (fst (snd (reset seed self g))))))) \<and>
   (fst action = NaN \<or> fst goalie = NaN \<longrightarrow> fst (step_goalie_pos action goalie) = NaN) \<and>
   (snd action = NaN \<or> snd goalie = NaN \<longrightarrow> snd (step_goalie_pos action goalie) = NaN) \<and>
   step_goalie_pos (np_of a) (np_of (goalie_pos s)) = np_of (goalie_pos (snd (step a s))) \<and>
   - 2.0 \<le> fst (goalie_pos (snd (step a s))) \<and> fst (goalie_pos (snd (step a s))) \<le> 2.0 \<and>
   - 1.5 \<le> snd (goalie_pos (snd (step a s))) \<and> snd (goalie_pos (snd (step a s))) \<le> 1.5"
proof -
  have "in_arena (np_of (goalie_pos (fst (snd (reset seed self g)))))"
    by (simp add: reset_fields np_of_def in_arena_def)
  then have "no_nan action \<longrightarrow>
      in_arena (step_goalie_pos action (np_of (goalie_pos (fst (snd (reset seed self g))))))"
    by (simp add: step_goalie_pos_in_arena)
  then show ?thesis
    using step_goalie_arena [of a s] step_goalie_pos_nan [of action goalie]
    by (simp add: steps_goalie_pos_in_arena step_goalie_pos_real)
qed

text \<open>
  Two actions with infinite and thousandfold components; a step from the state \<open>reset\<close>
  leaves; a NaN in the action and a NaN in the goalie position; and the real-number \<open>step\<close>
  with an action a thousand times the nominal range.
\<close>

theorem c7_goalie_within_arena_unless_nan_witness:
  "list_all no_nan [(PosInf, Fin (- 1000)), (Fin 0.5, NegInf)] \<and>
   in_arena (Fin 0, Fin 0) \<and>
   steps_goalie_pos [(PosInf, Fin (- 1000)), (Fin 0.5, NegInf)] (Fin 0, Fin 0) = (Fin 2, Fin (- 1.5)) \<and>
   in_arena (steps_goalie_pos [(PosInf, Fin (- 1000)), (Fin 0.5, NegInf)] (Fin 0, Fin 0)) \<and>
   no_nan (Fin 1000, NegInf) \<and>
   step_goalie_pos (Fin 1000, NegInf)
     (np_of (goalie_pos (fst (snd (reset None (probe (0, 0) (0, 0) 0) (sconst 0.5))))))
     = (Fin 2, Fin (- 1.5)) \<and>
   in_arena (step_goalie_pos (Fin 1000, NegInf)
     (np_of (goalie_pos (fst (snd (reset None (probe (0, 0) (0, 0) 0) (sconst 0.5))))))) \<and>
   fst (step_goalie_pos (NaN, Fin 0) (Fin 0, Fin 0)) = NaN \<and>
   snd (step_goalie_pos (Fin 0, Fin 1) (Fin 1, NaN)) = NaN \<and>
   goalie_pos (snd (step (1000, - 1000) (fst (HockeyEnv_init (sconst 0.5))))) = (2, - 1.5)"
  using c7_goalie_within_arena_unless_nan [of "[(PosInf, Fin (- 1000)), (Fin 0.5, NegInf)]"
      "(Fin 0, Fin 0)" "(Fin 1000, NegInf)" None "probe (0, 0) (0, 0) 0" "sconst 0.5"
      "(1000, - 1000)" "fst (HockeyEnv_init (sconst 0.5))"]
    c7_goalie_within_arena_unless_nan [of "[]" "(Fin 0, Fin 0)" "(NaN, Fin 0)"]
    c7_goalie_within_arena_unless_nan [of "[]" "(Fin 1, NaN)" "(Fin 0, Fin 1)"]
  by (simp add: no_nan_def in_arena_def step_goalie_pos_def np_clip_def np_of_def
      reset_fields init_fields step_fields clip_def Let_def)

section \<open>The observation\<close>

text \<open>
  Claim C9. The observation returned by \<open>reset\<close> and by every call to \<open>step\<close> has exactly
  12 elements: goalie x, goalie z, puck x, puck z, puck velocity x, puck velocity z of the
  state the call leaves behind, in this order, and then six zeros.
\<close>

theorem c9_observation_layout:
  "fst (fst (reset seed self g)) =
     [fst (goalie_pos (fst (snd (reset seed self g)))),
      snd (goalie_pos (fst (snd (reset seed self g)))),
      fst (puck_pos (fst (snd (reset seed self g)))),
      snd (puck_pos (fst (snd (reset seed self g)))),
      fst (puck_vel (fst (snd (reset seed self g)))),
      snd (puck_vel (fst (snd (reset seed self g)))),
      0, 0, 0, 0, 0, 0] \<and>
   length (fst (fst (reset seed self g))) = 12 \<and>
   observation (fst (step action s)) =
     [fst (goalie_pos (snd (step action s))), snd (goalie_pos (snd (step action s))),
      fst (puck_pos (snd (step action s))), snd (puck_pos (snd (step action s))),
      fst (puck_vel (snd (step action s))), snd (puck_vel (snd (step action s))),
      0, 0, 0, 0, 0, 0] \<and>
   length (observation (fst (step action s))) = 12"
  by (simp add: step_observation get_observation_def)
    (simp add: reset_def uniform_def Let_def get_observation_def)

theorem c9_observation_layout_witness:
  "fst (fst (reset (Some 7) (fst (HockeyEnv_init (sconst 0.5))) (sconst 0.75))) =
     [0, 0, - 5, 0, 2, 0.25, 0, 0, 0, 0, 0, 0] \<and>
   observation (fst (step (1, 1) (fst (HockeyEnv_init (sconst 0.75))))) =
     [0.1, 0.1, - 4.96, 0.005, 1.98, 0.2475, 0, 0, 0, 0, 0, 0]"
  using c9_observation_layout [of "Some 7" "fst (HockeyEnv_init (sconst 0.5))" "sconst 0.75"
      "(1, 1)" "fst (HockeyEnv_init (sconst 0.75))"]
  by (simp add: reset_fields step_fields init_fields clip_def)

section \<open>The step limit\<close>

text \<open>
  Claim C1. In every call to \<open>step\<close> the step limit is checked after the chain
  MISS / GOAL / SAVE, on what the chain left, and without a condition of its own: when the
  incremented counter has reached \<open>max_steps\<close> (which \<open>reset\<close> sets to 300), the reward is
  -10, the result is timeout and done is set, whatever the chain had found.
\<close>

theorem c1_step_limit_overrides:
  assumes "max_steps self \<le> episode_step (snd (step action self))"
  shows "reward (fst (step action self)) = - 10 \<and>
         terminated (fst (step action self)) \<and>
         info (fst (step action self)) ''result'' = Some ''timeout'' \<and>
         (reward (fst (step action self)), terminated (fst (step action self)),
          info (fst (step action self))) =
           step_limit (snd (step action self))
             (end_conditions (snd (step action self))
               (proximity_reward (snd (step action self)), False, Map.empty)) \<and>
         max_steps (fst (snd (reset seed self' g))) = 300"
proof -
  obtain r d i where chain:
    "end_conditions (snd (step action self))
       (proximity_reward (snd (step action self)), False, Map.empty) = (r, d, i)"
    by (cases "end_conditions (snd (step action self))
       (proximity_reward (snd (step action self)), False, Map.empty)") 
  from assms have limit: "max_steps (snd (step action self)) \<le> episode_step (snd (step action self))"
    by (simp add: step_fields)
  have parts:
    "reward (fst (step action self)) = - 10"
    "terminated (fst (step action self))"
    "info (fst (step action self)) = i(''result'' \<mapsto> ''timeout'')"
    using step_outcome [of action self] limit by (simp_all add: chain step_limit_def)
  have "max_steps (fst (snd (reset seed self' g))) = 300"
    by (simp add: reset_fields)
  with parts step_outcome [of action self] show ?thesis
    by simp
qed

text \<open>
  At step 300 with the puck at x = 9 the chain finds MISS with reward 50, and the step
  returns timeout with reward -10.
\<close>

theorem c1_step_limit_overrides_witness:
  "max_steps (probe (0, 0) (9, 0) 299)
     \<le> episode_step (snd (step (0, 0) (probe (0, 0) (9, 0) 299))) \<and>
   end_conditions (snd (step (0, 0) (probe (0, 0) (9, 0) 299))) (0.1, False, Map.empty)
     = (50, True, [''result'' \<mapsto> ''miss'']) \<and>
   reward (fst (step (0, 0) (probe (0, 0) (9, 0) 299))) = - 10 \<and>
   terminated (fst (step (0, 0) (probe (0, 0) (9, 0) 299))) \<and>
   info (fst (step (0, 0) (probe (0, 0) (9, 0) 299))) ''result'' = Some ''timeout''"
  using c1_step_limit_overrides [of "probe (0, 0) (9, 0) 299" "(0, 0)"]
  by (simp add: step_fields end_conditions_def)

section \<open>What one step returns\<close>

lemma norm2_nonneg: "0 \<le> norm2 v"
  by (simp add: norm2_def)

lemma proximity_reward_range: "0 \<le> proximity_reward s \<and> proximity_reward s \<le> 1"
  using norm2_nonneg [of "vsub (puck_pos s) (goalie_pos s)"]
  by (simp add: proximity_reward_def Let_def max_def)

lemma far_puck_distance:
  assumes "fst (goalie_pos s) \<le> 2" "fst (puck_pos s) > 6"
  shows "norm2 (vsub (puck_pos s) (goalie_pos s)) > 4"
proof -
  have "\<bar>fst (puck_pos s) - fst (goalie_pos s)\<bar> \<le> norm2 (vsub (puck_pos s) (goalie_pos s))"
    by (simp add: norm2_def vsub_def)
  with assms show ?thesis by linarith
qed

lemma arena_no_save: "fst (goalie_pos s) \<le> 2 \<Longrightarrow> \<not> check_save s"
  using far_puck_distance [of s] by (auto simp: check_save_def Let_def)

lemma step_no_save: "\<not> check_save (snd (step a s))"
  using step_goalie_arena [of a s] by (simp add: arena_no_save)

lemma step_cases:
  "(reward (fst (step a s)), terminated (fst (step a s)), info (fst (step a s))) =
     (if max_steps s \<le> episode_step s + 1 then
        (- 10, True,
         (if \<bar>fst (puck_pos (snd (step a s)))\<bar> > 8 then [''result'' \<mapsto> ''miss'']
          else if \<bar>snd (puck_pos (snd (step a s)))\<bar> < 0.5 \<and> fst (puck_pos (snd (step a s))) > 7
            then [''result'' \<mapsto> ''goal'']
          else Map.empty)(''result'' \<mapsto> ''timeout''))
      else if \<bar>fst (puck_pos (snd (step a s)))\<bar> > 8 then (50, True, [''result'' \<mapsto> ''miss''])
      else if \<bar>snd (puck_pos (snd (step a s)))\<bar> < 0.5 \<and> fst (puck_pos (snd (step a s))) > 7
        then (- 200, True, [''result'' \<mapsto> ''goal''])
      else (proximity_reward (snd (step a s)), False, Map.empty))"
  using step_no_save [of a s]
  by (simp add: step_outcome end_conditions_def step_limit_def)
     (simp add: step_fields)

lemma step_reward:
  "reward (fst (step a s)) =
     (if max_steps s \<le> episode_step s + 1 then - 10
      else if \<bar>fst (puck_pos (snd (step a s)))\<bar> > 8 then 50
      else if \<bar>snd (puck_pos (snd (step a s)))\<bar> < 0.5 \<and> fst (puck_pos (snd (step a s))) > 7
        then - 200
      else proximity_reward (snd (step a s)))"
  using step_cases [of a s] by (auto split: if_splits)

lemma step_terminated:
  "terminated (fst (step a s)) =
     (max_steps s \<le> episode_step s + 1 \<or> \<bar>fst (puck_pos (snd (step a s)))\<bar> > 8 \<or>
      \<bar>snd (puck_pos (snd (step a s)))\<bar> < 0.5 \<and> fst (puck_pos (snd (step a s))) > 7)"
  using step_cases [of a s] by (auto split: if_splits)

lemma step_result:
  "info (fst (step a s)) ''result'' =
     (if max_steps s \<le> episode_step s + 1 then Some ''timeout''
      else if \<bar>fst (puck_pos (snd (step a s)))\<bar> > 8 then Some ''miss''
      else if \<bar>snd (puck_pos (snd (step a s)))\<bar> < 0.5 \<and> fst (puck_pos (snd (step a s))) > 7
        then Some ''goal''
      else None)"
  using step_cases [of a s] by (auto split: if_splits)

section \<open>No save\<close>

text \<open>
  Claim C8. In every state whose goalie lies within the arena bounds the SAVE condition
  is false: it asks for puck x > 6 and a distance below 1.0 from goalie to puck, and a
  goalie with x at most 2.0 is more than 4 away from such a puck. The clip in \<open>step\<close>
  puts the goalie within the bounds before the condition is read, so \<open>step\<close> never returns
  the result save, nor the reward 200.
\<close>

theorem c8_save_unreachable:
  "(- 2.0 \<le> fst (goalie_pos self) \<and> fst (goalie_pos self) \<le> 2.0 \<and>
    - 1.5 \<le> snd (goalie_pos self) \<and> snd (goalie_pos self) \<le> 1.5 \<longrightarrow> \<not> check_save self) \<and>
   (fst (goalie_pos self) \<le> 2.0 \<and> fst (puck_pos self) > 6 \<longrightarrow>
      norm2 (vsub (puck_pos self) (goalie_pos self)) > 4) \<and>
   \<not> check_save (snd (step action s)) \<and>
   info (fst (step action s)) ''result'' \<noteq> Some ''save'' \<and>
   reward (fst (step action s)) \<noteq> 200"
proof -
  have "info (fst (step action s)) ''result'' \<noteq> Some ''save''"
    using step_cases [of action s] by (simp split: if_splits)
  moreover have "reward (fst (step action s)) \<noteq> 200"
    using step_cases [of action s] proximity_reward_range [of "snd (step action s)"]
    by (simp split: if_splits)
  ultimately show ?thesis
    using far_puck_distance [of self] arena_no_save [of self] step_no_save [of action s]
    by simp
qed

text \<open>
  The goalie at its right bound and the puck at x = 6.5; and a step that pushes the goalie
  towards that puck as far as the clip lets it.
\<close>

theorem c8_save_unreachable_witness:
  "- 2.0 \<le> fst (goalie_pos (probe (2, 0) (6.5, 0) 0)) \<and>
   fst (goalie_pos (probe (2, 0) (6.5, 0) 0)) \<le> 2.0 \<and>
   - 1.5 \<le> snd (goalie_pos (probe (2, 0) (6.5, 0) 0)) \<and>
   snd (goalie_pos (probe (2, 0) (6.5, 0) 0)) \<le> 1.5 \<and>
   fst (puck_pos (probe (2, 0) (6.5, 0) 0)) > 6 \<and>
   \<not> check_save (probe (2, 0) (6.5, 0) 0) \<and>
   norm2 (vsub (puck_pos (probe (2, 0) (6.5, 0) 0)) (goalie_pos (probe (2, 0) (6.5, 0) 0))) > 4 \<and>
   goalie_pos (snd (step (50, 0) (probe (0, 0) (6.5, 0) 0))) = (2, 0) \<and>
   info (fst (step (50, 0) (probe (0, 0) (6.5, 0) 0))) ''result'' \<noteq> Some ''save'' \<and>
   reward (fst (step (50, 0) (probe (0, 0) (6.5, 0) 0))) \<noteq> 200"
  using c8_save_unreachable [of "probe (2, 0) (6.5, 0) 0" "(50, 0)" "probe (0, 0) (6.5, 0) 0"]
  by (simp add: step_fields clip_def)

section \<open>The action\<close>

text \<open>
  Claim C4, as stated, says that every component of the action is clamped to [-1, 1]
  before it moves the goalie, so that the goalie moves by at most 0.1 per axis in a step.
  \<open>step\<close> has no such clamp: the action (30, 0) moves the goalie from (0, 0) to (2, 0),
  where the action clamped to [-1, 1] would have left it at (0.1, 0).
\<close>

theorem c4_out_of_range_action_counterexample:
  "goalie_pos (fst (HockeyEnv_init (sconst 0.5))) = (0, 0) \<and>
   goalie_pos (snd (step (30, 0) (fst (HockeyEnv_init (sconst 0.5))))) = (2, 0) \<and>
   \<not> \<bar>fst (goalie_pos (snd (step (30, 0) (fst (HockeyEnv_init (sconst 0.5))))))
       - fst (goalie_pos (fst (HockeyEnv_init (sconst 0.5))))\<bar> \<le> 0.1 \<and>
   goalie_pos (snd (step (30, 0) (fst (HockeyEnv_init (sconst 0.5))))) \<noteq>
     goalie_pos (snd (step (clip 30 (- 1) 1, clip 0 (- 1) 1) (fst (HockeyEnv_init (sconst 0.5)))))"
  by (simp add: step_fields init_fields clip_def)

text \<open>
  Claim C4, amended. \<open>step\<close> applies the raw action: the goalie moves by the action times
  0.1 and only the resulting position is clipped, to the arena bounds. This is so for
  every action, in range or not, and no action makes \<open>step\<close> fail. When a component of the
  action lies in [-1, 1] and the goalie was within the bounds on that axis, the goalie
  moves by at most 0.1 on that axis.
\<close>

theorem c4_action_applied_unclamped:
  "goalie_pos (snd (step action self)) =
     vclip (vadd (goalie_pos self) (vscale action 0.1)) (- 2.0, - 1.5) (2.0, 1.5) \<and>
   (- 2.0 \<le> fst (goalie_pos self) \<and> fst (goalie_pos self) \<le> 2.0 \<and> \<bar>fst action\<bar> \<le> 1 \<longrightarrow>
      \<bar>fst (goalie_pos (snd (step action self))) - fst (goalie_pos self)\<bar> \<le> 0.1) \<and>
   (- 1.5 \<le> snd (goalie_pos self) \<and> snd (goalie_pos self) \<le> 1.5 \<and> \<bar>snd action\<bar> \<le> 1 \<longrightarrow>
      \<bar>snd (goalie_pos (snd (step action self))) - snd (goalie_pos self)\<bar> \<le> 0.1)"
  by (simp add: step_fields vclip_def vadd_def vscale_def clip_def min_def max_def) linarith

theorem c4_action_applied_unclamped_witness:
  "- 2.0 \<le> fst (goalie_pos (probe (1.95, - 1.5) (0, 0) 0)) \<and>
   fst (goalie_pos (probe (1.95, - 1.5) (0, 0) 0)) \<le> 2.0 \<and>
   - 1.5 \<le> snd (goalie_pos (probe (1.95, - 1.5) (0, 0) 0)) \<and>
   snd (goalie_pos (probe (1.95, - 1.5) (0, 0) 0)) \<le> 1.5 \<and>
   \<bar>fst (1::real, 1::real)\<bar> \<le> 1 \<and> \<bar>snd (1::real, 1::real)\<bar> \<le> 1 \<and>
   goalie_pos (snd (step (1, 1) (probe (1.95, - 1.5) (0, 0) 0))) = (2, - 1.4) \<and>
   \<bar>fst (goalie_pos (snd (step (1, 1) (probe (1.95, - 1.5) (0, 0) 0)))) - 1.95\<bar> \<le> 0.1 \<and>
   \<bar>snd (goalie_pos (snd (step (1, 1) (probe (1.95, - 1.5) (0, 0) 0)))) - (- 1.5)\<bar> \<le> 0.1"
  using c4_action_applied_unclamped [of "(1, 1)" "probe (1.95, - 1.5) (0, 0) 0"]
  by (simp add: step_fields clip_def vclip_def vadd_def vscale_def)

section \<open>The reward\<close>

text \<open>
  Claim C6. The reward that \<open>step\<close> returns is exactly 50 when the result is miss, -200
  when it is goal, 200 when it is save and -10 when it is timeout: the terminal reward
  replaces the proximity term. On a step that is not terminal the reward is
  \<open>max(0, 10 - distance) * 0.1\<close>, the distance from puck to goalie read after both have
  moved. A terminal step carries one of the four results. By C8 no step has the result
  save, so the last conjunct states the save branch on the chain of end conditions itself,
  started as \<open>step\<close> starts it and in any state: there the reward is 200, not 200 more
  than the proximity term.
\<close>

theorem c6_reward_by_outcome:
  "(info (fst (step action self)) ''result'' = Some ''miss'' \<longrightarrow>
      reward (fst (step action self)) = 50) \<and>
   (info (fst (step action self)) ''result'' = Some ''goal'' \<longrightarrow>
      reward (fst (step action self)) = - 200) \<and>
   (info (fst (step action self)) ''result'' = Some ''save'' \<longrightarrow>
      reward (fst (step action self)) = 200) \<and>
   (info (fst (step action self)) ''result'' = Some ''timeout'' \<longrightarrow>
      reward (fst (step action self)) = - 10) \<and>
   (\<not> terminated (fst (step action self)) \<longrightarrow>
      reward (fst (step action self)) =
        max 0 (10 - norm2 (vsub (puck_pos (snd (step action self)))
                                (goalie_pos (snd (step action self))))) * 0.1) \<and>
   (terminated (fst (step action self)) \<longrightarrow>
      info (fst (step action self)) ''result'' \<in>
        {Some ''miss'', Some ''goal'', Some ''save'', Some ''timeout''}) \<and>
   (snd (snd (end_conditions s (r, False, Map.empty))) ''result'' = Some ''save'' \<longrightarrow>
      fst (end_conditions s (r, False, Map.empty)) = 200)"
proof -
  have chain: "snd (snd (end_conditions s (r, False, Map.empty))) ''result'' = Some ''save'' \<longrightarrow>
      fst (end_conditions s (r, False, Map.empty)) = 200"
    by (simp add: end_conditions_def)
  show ?thesis
    using step_cases [of action self] chain
    by (simp add: proximity_reward_def Let_def split: if_splits)
qed

text \<open>
  A miss (puck at x = 9), a goal (puck at (7.5, 0)), a timeout (counter at 299), a step
  that is not terminal (puck at distance 5 from the goalie, reward 0.5), and the save
  branch of the chain with goalie and puck both at (6.5, 0).
\<close>

theorem c6_reward_by_outcome_witness:
  "info (fst (step (0, 0) (probe (0, 0) (9, 0) 0))) ''result'' = Some ''miss'' \<and>
   reward (fst (step (0, 0) (probe (0, 0) (9, 0) 0))) = 50 \<and>
   info (fst (step (0, 0) (probe (0, 0) (7.5, 0) 0))) ''result'' = Some ''goal'' \<and>
   reward (fst (step (0, 0) (probe (0, 0) (7.5, 0) 0))) = - 200 \<and>
   info (fst (step (0, 0) (probe (0, 0) (3, 0) 299))) ''result'' = Some ''timeout'' \<and>
   reward (fst (step (0, 0) (probe (0, 0) (3, 0) 299))) = - 10 \<and>
   \<not> terminated (fst (step (0, 0) (probe (0, 0) (3, 4) 0))) \<and>
   reward (fst (step (0, 0) (probe (0, 0) (3, 4) 0))) = 0.5 \<and>
   snd (snd (end_conditions (probe (6.5, 0) (6.5, 0) 0) (0.7, False, Map.empty))) ''result''
     = Some ''save'' \<and>
   fst (end_conditions (probe (6.5, 0) (6.5, 0) 0) (0.7, False, Map.empty)) = 200"
  using c6_reward_by_outcome [of "(0, 0)" "probe (0, 0) (9, 0) 0" "probe (6.5, 0) (6.5, 0) 0" "0.7"]
    c6_reward_by_outcome [of "(0, 0)" "probe (0, 0) (7.5, 0) 0" "probe (6.5, 0) (6.5, 0) 0" "0.7"]
    c6_reward_by_outcome [of "(0, 0)" "probe (0, 0) (3, 0) 299" "probe (6.5, 0) (6.5, 0) 0" "0.7"]
    c6_reward_by_outcome [of "(0, 0)" "probe (0, 0) (3, 4) 0" "probe (6.5, 0) (6.5, 0) 0" "0.7"]
  by (simp add: step_reward step_result step_terminated step_fields clip_def norm2_def
      vsub_def end_conditions_def check_save_def proximity_reward_def)

section \<open>The seed\<close>

text \<open>
  Claim C3 says that a fixed seed and a fixed action sequence give the same observations
  and rewards in two independent runs, the lateral velocity of the puck being a function
  of the seed alone. \<open>reset\<close> hands the seed to \<open>gym.Env.reset\<close>, which seeds the instance's
  own generator, and then draws the lateral velocity from numpy's generator of the whole
  process, which the seed does not touch. Two calls of \<open>reset\<close> with the seed 42, one after
  the other in a process whose generator delivers 0.25 and then 0.75, return observations
  that differ in the lateral velocity, -0.25 and 0.25; both leave the instance's generator
  seeded with 42.
\<close>

theorem c3_same_seed_different_observation:
  "fst (fst (reset (Some 42) (fst (HockeyEnv_init (sconst 0.5))) (0.25 ## 0.75 ## sconst 0.5)))
     = [0, 0, - 5, 0, 2, - 0.25, 0, 0, 0, 0, 0, 0] \<and>
   snd (snd (reset (Some 42) (fst (HockeyEnv_init (sconst 0.5))) (0.25 ## 0.75 ## sconst 0.5)))
     = 0.75 ## sconst 0.5 \<and>
   fst (fst (reset (Some 42) (fst (HockeyEnv_init (sconst 0.5))) (0.75 ## sconst 0.5)))
     = [0, 0, - 5, 0, 2, 0.25, 0, 0, 0, 0, 0, 0] \<and>
   np_random (fst (snd (reset (Some 42) (fst (HockeyEnv_init (sconst 0.5)))
     (0.25 ## 0.75 ## sconst 0.5)))) = Some 42 \<and>
   np_random (fst (snd (reset (Some 42) (fst (HockeyEnv_init (sconst 0.5)))
     (0.75 ## sconst 0.5)))) = Some 42"
  by (simp add: reset_def uniform_def gym_reset_def get_observation_def Let_def)

section \<open>Sequences of steps\<close>

lemma puck_line_step:
  "fst (puck_pos (snd (step a s))) + 2 * fst (puck_vel (snd (step a s))) =
     fst (puck_pos s) + 2 * fst (puck_vel s)"
  by (simp add: step_fields)

lemma steps_counter:
  "episode_step (steps as s) = episode_step s + int (length as)"
  "max_steps (steps as s) = max_steps s"
  by (induction as arbitrary: s) (simp_all add: step_fields)

lemma steps_puck_vel_x:
  "fst (puck_vel (steps as s)) = fst (puck_vel s) * 0.99 ^ length as"
  by (induction as arbitrary: s) (simp_all add: step_fields)

lemma steps_puck_line:
  "fst (puck_pos (steps as s)) + 2 * fst (puck_vel (steps as s)) =
     fst (puck_pos s) + 2 * fst (puck_vel s)"
  by (induction as arbitrary: s) (simp_all add: puck_line_step)

lemma steps_append: "steps (as @ bs) s = steps bs (steps as s)"
  by (induction as arbitrary: s) simp_all

text \<open>A shot: the puck on the line x + 2 vx = -1, moving forward at no more than 2.\<close>

lemma shot_step:
  assumes "fst (puck_pos s) + 2 * fst (puck_vel s) = - 1" "0 < fst (puck_vel s)"
    "fst (puck_vel s) \<le> 2"
  shows "fst (puck_pos (snd (step a s))) + 2 * fst (puck_vel (snd (step a s))) = - 1"
    and "0 < fst (puck_vel (snd (step a s)))"
    and "fst (puck_vel (snd (step a s))) \<le> 2"
    and "- 5 \<le> fst (puck_pos (snd (step a s)))"
    and "fst (puck_pos (snd (step a s))) < - 1"
    and "fst (puck_pos s) < fst (puck_pos (snd (step a s)))"
  using assms by (simp_all add: step_fields)

lemma shot_step_quiet:
  assumes "fst (puck_pos s) + 2 * fst (puck_vel s) = - 1" "0 < fst (puck_vel s)"
    "fst (puck_vel s) \<le> 2"
  shows "terminated (fst (step a s)) = (max_steps s \<le> episode_step s + 1)"
    and "info (fst (step a s)) ''result'' =
           (if max_steps s \<le> episode_step s + 1 then Some ''timeout'' else None)"
    and "reward (fst (step a s)) =
           (if max_steps s \<le> episode_step s + 1 then - 10 else proximity_reward (snd (step a s)))"
  using shot_step(4,5) [OF assms, of a]
  by (simp_all add: step_terminated step_result step_reward)


lemma run_nth:
  "k < length as \<Longrightarrow> run as s ! k = fst (step (as ! k) (steps (take k as) s))"
proof (induction as arbitrary: s k)
  case Nil
  then show ?case by simp
next
  case (Cons a as)
  show ?case
  proof (cases k)
    case 0
    then show ?thesis by simp
  next
    case (Suc j)
    with Cons.prems have "j < length as" by simp
    from Cons.IH [OF this] Suc show ?thesis by simp
  qed
qed

lemma steps_shot:
  assumes "fst (puck_pos s) + 2 * fst (puck_vel s) = - 1" "0 < fst (puck_vel s)"
    "fst (puck_vel s) \<le> 2"
  shows "fst (puck_pos (steps as s)) + 2 * fst (puck_vel (steps as s)) = - 1"
    and "0 < fst (puck_vel (steps as s))"
    and "fst (puck_vel (steps as s)) \<le> 2"
proof -
  show "fst (puck_pos (steps as s)) + 2 * fst (puck_vel (steps as s)) = - 1"
    using assms(1) by (simp add: steps_puck_line)
  show "0 < fst (puck_vel (steps as s))"
    using assms(2) by (simp add: steps_puck_vel_x)
  have "(0.99::real) ^ length as \<le> 1"
    by (rule power_le_one) simp_all
  with assms(2,3) have "fst (puck_vel s) * 0.99 ^ length as \<le> 2 * 1"
    by (intro mult_mono) simp_all
  then show "fst (puck_vel (steps as s)) \<le> 2"
    by (simp add: steps_puck_vel_x)
qed

lemma low_puck_no_save: "fst (puck_pos s) \<le> 6 \<Longrightarrow> \<not> check_save s"
  by (simp add: check_save_def Let_def)

lemma run_shot:
  assumes "fst (puck_pos s) + 2 * fst (puck_vel s) = - 1" "0 < fst (puck_vel s)"
    "fst (puck_vel s) \<le> 2" "k < length as"
  shows "terminated (run as s ! k) = (max_steps s \<le> episode_step s + int k + 1)"
    and "info (run as s ! k) ''result'' =
           (if max_steps s \<le> episode_step s + int k + 1 then Some ''timeout'' else None)"
    and "max_steps s \<le> episode_step s + int k + 1 \<Longrightarrow> reward (run as s ! k) = - 10"
  using shot_step_quiet [OF steps_shot [OF assms(1,2,3), of "take k as"], of "as ! k"] assms(4)
  by (simp_all add: run_nth steps_counter)

lemma run_episode_shot:
  assumes "fst (puck_pos s) + 2 * fst (puck_vel s) = - 1" "0 < fst (puck_vel s)"
    "fst (puck_vel s) \<le> 2" "max_steps s = 300" "episode_step s < 300"
    "n = nat (299 - episode_step s)"
  shows "length (run_episode p ob s) = Suc n \<and>
         terminated (last (run_episode p ob s)) \<and>
         info (last (run_episode p ob s)) ''result'' = Some ''timeout'' \<and>
         reward (last (run_episode p ob s)) = - 10"
  using assms
proof (induction n arbitrary: s ob)
  case 0
  then have lim: "max_steps s \<le> episode_step s + 1" by simp
  have "run_episode p ob s = [fst (step (p ob) s)]"
    using shot_step_quiet(1) [OF 0(1-3), of "p ob"] lim
    by (subst run_episode.simps) (simp add: Let_def)
  then show ?case
    using shot_step_quiet [OF 0(1-3), of "p ob"] lim by simp
next
  case (Suc n)
  then have lim: "\<not> max_steps s \<le> episode_step s + 1" by simp
  let ?r = "step (p ob) s"
  have unfold: "run_episode p ob s = fst ?r # run_episode p (observation (fst ?r)) (snd ?r)"
    using shot_step_quiet(1) [OF Suc(2-4), of "p ob"] lim
    by (subst run_episode.simps) (simp add: Let_def step_truncated)
  have ih: "length (run_episode p (observation (fst ?r)) (snd ?r)) = Suc n \<and>
         terminated (last (run_episode p (observation (fst ?r)) (snd ?r))) \<and>
         info (last (run_episode p (observation (fst ?r)) (snd ?r))) ''result'' = Some ''timeout'' \<and>
         reward (last (run_episode p (observation (fst ?r)) (snd ?r))) = - 10"
    using Suc.prems
    by (intro Suc.IH shot_step(1,2,3)) (simp_all add: step_fields)
  then have "run_episode p (observation (fst ?r)) (snd ?r) \<noteq> []" by auto
  with ih show ?case by (simp add: unfold)
qed

lemma run_episode_bound:
  "run_episode p ob s \<noteq> [] \<and>
   length (run_episode p ob s) \<le> max 1 (nat (max_steps s - episode_step s)) \<and>
   terminated (last (run_episode p ob s))"
proof (induction p ob s rule: run_episode.induct)
  case (1 policy obs self)
  let ?r = "step (policy obs) self"
  show ?case
  proof (cases "terminated (fst ?r) \<or> truncated (fst ?r)")
    case True
    then have "run_episode policy obs self = [fst ?r]"
      by (subst run_episode.simps) (simp add: Let_def)
    with True show ?thesis by (simp add: step_truncated)
  next
    case False
    then have unfold:
      "run_episode policy obs self = fst ?r # run_episode policy (observation (fst ?r)) (snd ?r)"
      by (subst run_episode.simps) (simp add: Let_def)
    from False have "\<not> max_steps self \<le> episode_step self + 1"
      by (simp add: step_terminated)
    with "1.IH" [OF refl False] show ?thesis
      by (simp add: unfold step_fields) linarith
  qed
qed

lemma reset_shot:
  "fst (puck_pos (fst (snd (reset seed self g)))) + 2 * fst (puck_vel (fst (snd (reset seed self g)))) = - 1"
  "0 < fst (puck_vel (fst (snd (reset seed self g))))"
  "fst (puck_vel (fst (snd (reset seed self g)))) \<le> 2"
  by (simp_all add: reset_fields)

lemma init_shot:
  "fst (puck_pos (fst (HockeyEnv_init g))) + 2 * fst (puck_vel (fst (HockeyEnv_init g))) = - 1"
  "0 < fst (puck_vel (fst (HockeyEnv_init g)))"
  "fst (puck_vel (fst (HockeyEnv_init g))) \<le> 2"
  by (simp_all add: init_fields)

lemma steps_replicate_Suc:
  "steps (replicate (Suc n) a) s = snd (step a (steps (replicate n a) s))"
proof -
  have "replicate (Suc n) a = replicate n a @ [a]"
    by (simp add: replicate_append_same)
  then show ?thesis by (simp only: steps_append steps.simps)
qed

lemma steps_zero_goalie:
  "goalie_pos s = (0, 0) \<Longrightarrow> goalie_pos (steps (replicate n (0, 0)) s) = (0, 0)"
  by (induction n arbitrary: s) (simp_all add: step_fields clip_def)

section \<open>The shot never arrives\<close>

text \<open>
  Claim C2. \<open>reset\<close> puts the puck at x = -5 with forward velocity 2; each step adds
  velocity * 0.02 to the position and multiplies the velocity by 0.99. After any sequence
  of actions the puck's x is -1 - 4 * 0.99^n, n the number of steps: it has travelled
  4 * (1 - 0.99^n), the partial sum of the geometric series, and stays in [-5, -1). So
  none of the conditions MISS, GOAL and SAVE holds in a state reached from \<open>reset\<close>, and
  with any action sequence and any policy the first terminal step is the 300th, with the
  result timeout and the reward -10.
\<close>

theorem c2_shot_never_arrives:
  "puck_pos (fst (snd (reset seed self g))) = (- 5.0, 0) \<and>
   fst (puck_vel (fst (snd (reset seed self g)))) = 2.0 \<and>
   fst (puck_pos (steps as (fst (snd (reset seed self g))))) = - 1 - 4 * 0.99 ^ length as \<and>
   - 5 \<le> fst (puck_pos (steps as (fst (snd (reset seed self g))))) \<and>
   fst (puck_pos (steps as (fst (snd (reset seed self g))))) < - 1 \<and>
   \<not> \<bar>fst (puck_pos (steps as (fst (snd (reset seed self g)))))\<bar> > 8 \<and>
   \<not> (\<bar>snd (puck_pos (steps as (fst (snd (reset seed self g)))))\<bar> < 0.5 \<and>
      fst (puck_pos (steps as (fst (snd (reset seed self g))))) > 7) \<and>
   \<not> check_save (steps as (fst (snd (reset seed self g)))) \<and>
   (k < length as \<longrightarrow>
      terminated (run as (fst (snd (reset seed self g))) ! k) = (299 \<le> k) \<and>
      info (run as (fst (snd (reset seed self g))) ! k) ''result'' =
        (if 299 \<le> k then Some ''timeout'' else None) \<and>
      (299 \<le> k \<longrightarrow> reward (run as (fst (snd (reset seed self g))) ! k) = - 10)) \<and>
   length (run_episode policy (fst (fst (reset seed self g))) (fst (snd (reset seed self g)))) = 300 \<and>
   info (last (run_episode policy (fst (fst (reset seed self g)))
     (fst (snd (reset seed self g))))) ''result'' = Some ''timeout'' \<and>
   reward (last (run_episode policy (fst (fst (reset seed self g)))
     (fst (snd (reset seed self g))))) = - 10"
proof -
  let ?start = "fst (snd (reset seed self g))"
  let ?s = "steps as ?start"
  note shot = steps_shot [OF reset_shot [of seed self g], of as]
  have vel: "fst (puck_vel ?s) = 2 * 0.99 ^ length as"
    by (simp add: steps_puck_vel_x reset_fields)
  with shot(1) have closed: "fst (puck_pos ?s) = - 1 - 4 * 0.99 ^ length as"
    by simp
  from shot have range: "- 5 \<le> fst (puck_pos ?s)" "fst (puck_pos ?s) < - 1"
    by linarith+
  then have quiet: "\<not> \<bar>fst (puck_pos ?s)\<bar> > 8"
    "\<not> (\<bar>snd (puck_pos ?s)\<bar> < 0.5 \<and> fst (puck_pos ?s) > 7)" "\<not> check_save ?s"
    by (simp_all add: low_puck_no_save)
  have seq: "k < length as \<longrightarrow>
      terminated (run as ?start ! k) = (299 \<le> k) \<and>
      info (run as ?start ! k) ''result'' = (if 299 \<le> k then Some ''timeout'' else None) \<and>
      (299 \<le> k \<longrightarrow> reward (run as ?start ! k) = - 10)"
    using run_shot [OF reset_shot [of seed self g], of k as]
    by (auto simp add: reset_fields)
  have loop: "length (run_episode policy (fst (fst (reset seed self g))) ?start) = 300 \<and>
      terminated (last (run_episode policy (fst (fst (reset seed self g))) ?start)) \<and>
      info (last (run_episode policy (fst (fst (reset seed self g))) ?start)) ''result''
        = Some ''timeout'' \<and>
      reward (last (run_episode policy (fst (fst (reset seed self g))) ?start)) = - 10"
    using run_episode_shot [OF reset_shot [of seed self g], of 299 policy "fst (fst (reset seed self g))"]
    by (simp add: reset_fields)
  from closed range quiet seq loop show ?thesis
    by (simp add: reset_fields)
qed

theorem c2_shot_never_arrives_witness:
  "299 < length (replicate 300 (1::real, - 1::real)) \<and>
   fst (puck_pos (steps (replicate 300 (1, - 1)) (fst (snd (reset (Some 1) (probe (0, 0) (0, 0) 0) (sconst 0.9))))))
     < - 1 \<and>
   \<not> check_save (steps (replicate 300 (1, - 1)) (fst (snd (reset (Some 1) (probe (0, 0) (0, 0) 0) (sconst 0.9))))) \<and>
   terminated (run (replicate 300 (1, - 1)) (fst (snd (reset (Some 1) (probe (0, 0) (0, 0) 0) (sconst 0.9)))) ! 299) \<and>
   info (run (replicate 300 (1, - 1)) (fst (snd (reset (Some 1) (probe (0, 0) (0, 0) 0) (sconst 0.9)))) ! 299)
     ''result'' = Some ''timeout'' \<and>
   reward (run (replicate 300 (1, - 1)) (fst (snd (reset (Some 1) (probe (0, 0) (0, 0) 0) (sconst 0.9)))) ! 299)
     = - 10 \<and>
   length (run_episode zero_policy (fst (fst (reset (Some 1) (probe (0, 0) (0, 0) 0) (sconst 0.9))))
     (fst (snd (reset (Some 1) (probe (0, 0) (0, 0) 0) (sconst 0.9))))) = 300"
  using c2_shot_never_arrives [of "Some 1" "probe (0, 0) (0, 0) 0" "sconst 0.9"
      "replicate 300 (1, - 1)" 299 zero_policy]
  by simp

section \<open>Every episode ends\<close>

text \<open>
  Claim C10. With any policy and any action sequence an episode begun by \<open>reset\<close> has a
  true terminal flag within \<open>max_steps\<close> = 300 calls of \<open>step\<close>: the counter starts at 0,
  every step adds exactly 1, and a step whose incremented counter has reached \<open>max_steps\<close>
  is terminal. The episode loop, which is a total function, makes at least one and at most
  300 steps and its last step is terminal; in a sequence of 300 or more \<open>step\<close> calls the
  300th returns a true terminal flag.
\<close>

theorem c10_episode_ends_within_max_steps:
  "episode_step (fst (snd (reset seed self g))) = 0 \<and>
   max_steps (fst (snd (reset seed self g))) = 300 \<and>
   episode_step (snd (step action s)) = episode_step s + 1 \<and>
   (max_steps s \<le> episode_step (snd (step action s)) \<longrightarrow> terminated (fst (step action s))) \<and>
   run_episode policy (fst (fst (reset seed self g))) (fst (snd (reset seed self g))) \<noteq> [] \<and>
   length (run_episode policy (fst (fst (reset seed self g))) (fst (snd (reset seed self g))))
     \<le> 300 \<and>
   terminated (last (run_episode policy (fst (fst (reset seed self g)))
     (fst (snd (reset seed self g))))) \<and>
   (300 \<le> length as \<longrightarrow> terminated (run as (fst (snd (reset seed self g))) ! 299))"
proof -
  let ?start = "fst (snd (reset seed self g))"
  have "300 \<le> length as \<longrightarrow> terminated (run as ?start ! 299)"
    by (simp add: run_nth step_terminated steps_counter reset_fields)
  moreover have "max_steps s \<le> episode_step (snd (step action s)) \<longrightarrow>
      terminated (fst (step action s))"
    by (simp add: step_terminated step_fields)
  ultimately show ?thesis
    using run_episode_bound [of policy "fst (fst (reset seed self g))" ?start]
    by (simp add: reset_fields step_fields)
qed

theorem c10_episode_ends_within_max_steps_witness:
  "max_steps (probe (0, 0) (0, 0) 299) \<le> episode_step (snd (step (1, 1) (probe (0, 0) (0, 0) 299))) \<and>
   terminated (fst (step (1, 1) (probe (0, 0) (0, 0) 299))) \<and>
   300 \<le> length (replicate 300 (1::real, 1::real)) \<and>
   terminated (run (replicate 300 (1, 1)) (fst (snd (reset None (probe (0, 0) (0, 0) 0) (sconst 0.1)))) ! 299) \<and>
   length (run_episode zero_policy (fst (fst (reset None (probe (0, 0) (0, 0) 0) (sconst 0.1))))
     (fst (snd (reset None (probe (0, 0) (0, 0) 0) (sconst 0.1))))) \<le> 300 \<and>
   terminated (last (run_episode zero_policy (fst (fst (reset None (probe (0, 0) (0, 0) 0) (sconst 0.1))))
     (fst (snd (reset None (probe (0, 0) (0, 0) 0) (sconst 0.1))))))"
  using c10_episode_ends_within_max_steps [of None "probe (0, 0) (0, 0) 0" "sconst 0.1"
      "(1, 1)" "probe (0, 0) (0, 0) 299" zero_policy "replicate 300 (1, 1)"]
  by (simp add: step_fields)

section \<open>The zero action\<close>

text \<open>
  Claim C5, as stated, says that from the reset state with the puck at (-5.0, 0.0), its
  velocity (2.0, 0.0) and the goalie at (0, 0), stepping with the zero action lets the
  puck's x grow until it exceeds 8, and that the episode then ends with the result miss
  and the reward 50. The object that \<open>__init__\<close> builds when the generator's next sample is
  0.5 is this state. Its episode under the zero policy ends with a result that is not
  miss and a reward that is not 50, and after 300 steps the puck's x is not above 8.
\<close>

theorem c5_zero_action_miss_counterexample:
  "puck_pos (fst (HockeyEnv_init (sconst 0.5))) = (- 5.0, 0.0) \<and>
   puck_vel (fst (HockeyEnv_init (sconst 0.5))) = (2.0, 0.0) \<and>
   goalie_pos (fst (HockeyEnv_init (sconst 0.5))) = (0, 0) \<and>
   terminated (last (run_episode zero_policy (get_observation (fst (HockeyEnv_init (sconst 0.5))))
     (fst (HockeyEnv_init (sconst 0.5))))) \<and>
   info (last (run_episode zero_policy (get_observation (fst (HockeyEnv_init (sconst 0.5))))
     (fst (HockeyEnv_init (sconst 0.5))))) ''result'' \<noteq> Some ''miss'' \<and>
   reward (last (run_episode zero_policy (get_observation (fst (HockeyEnv_init (sconst 0.5))))
     (fst (HockeyEnv_init (sconst 0.5))))) \<noteq> 50 \<and>
   \<not> fst (puck_pos (steps (replicate 300 (0, 0)) (fst (HockeyEnv_init (sconst 0.5))))) > 8"
proof -
  let ?start = "fst (HockeyEnv_init (sconst 0.5))"
  have "length (run_episode zero_policy (get_observation ?start) ?start) = 300 \<and>
      terminated (last (run_episode zero_policy (get_observation ?start) ?start)) \<and>
      info (last (run_episode zero_policy (get_observation ?start) ?start)) ''result'' = Some ''timeout'' \<and>
      reward (last (run_episode zero_policy (get_observation ?start) ?start)) = - 10"
    using run_episode_shot [OF init_shot [of "sconst 0.5"], of 299 zero_policy "get_observation ?start"]
    by (simp add: init_fields)
  moreover have "fst (puck_pos (steps (replicate 300 (0, 0)) ?start)) < - 1"
    using steps_shot [OF init_shot [of "sconst 0.5"], of "replicate 300 (0, 0)"] by linarith
  ultimately show ?thesis
    by (simp add: init_fields)
qed

text \<open>
  Claim C5, amended. From that state, stepping with the zero action makes the puck's x
  increase strictly from each step to the next while it stays below -1, so it never
  exceeds 8; the goalie stays at (0, 0); and the episode ends at its 300th step with the
  result timeout and the reward -10.
\<close>

theorem c5_zero_action_times_out:
  assumes "puck_pos s = (- 5.0, 0.0)" "puck_vel s = (2.0, 0.0)" "goalie_pos s = (0, 0)"
    "episode_step s = 0" "max_steps s = 300"
  shows "fst (puck_pos (steps (replicate n (0, 0)) s))
           < fst (puck_pos (steps (replicate (Suc n) (0, 0)) s)) \<and>
         fst (puck_pos (steps (replicate n (0, 0)) s)) < - 1 \<and>
         goalie_pos (steps (replicate n (0, 0)) s) = (0, 0) \<and>
         length (run_episode zero_policy (get_observation s) s) = 300 \<and>
         info (last (run_episode zero_policy (get_observation s) s)) ''result'' = Some ''timeout'' \<and>
         reward (last (run_episode zero_policy (get_observation s) s)) = - 10"
proof -
  have shot: "fst (puck_pos s) + 2 * fst (puck_vel s) = - 1" "0 < fst (puck_vel s)"
    "fst (puck_vel s) \<le> 2"
    using assms by simp_all
  note later = steps_shot [OF shot, of "replicate n (0, 0)"]
  have "fst (puck_pos (steps (replicate n (0, 0)) s))
      < fst (puck_pos (steps (replicate (Suc n) (0, 0)) s))"
    using shot_step(6) [OF later, of "(0, 0)"] by (simp only: steps_replicate_Suc)
  moreover from later have "fst (puck_pos (steps (replicate n (0, 0)) s)) < - 1"
    by linarith
  moreover note steps_zero_goalie [OF assms(3), of n]
  moreover have "length (run_episode zero_policy (get_observation s) s) = 300 \<and>
      terminated (last (run_episode zero_policy (get_observation s) s)) \<and>
      info (last (run_episode zero_policy (get_observation s) s)) ''result'' = Some ''timeout'' \<and>
      reward (last (run_episode zero_policy (get_observation s) s)) = - 10"
    using run_episode_shot [OF shot, of 299 zero_policy "get_observation s"] assms(4,5)
    by simp
  ultimately show ?thesis by simp
qed

theorem c5_zero_action_times_out_witness:
  "puck_pos (fst (HockeyEnv_init (sconst 0.5))) = (- 5.0, 0.0) \<and>
   puck_vel (fst (HockeyEnv_init (sconst 0.5))) = (2.0, 0.0) \<and>
   goalie_pos (fst (HockeyEnv_init (sconst 0.5))) = (0, 0) \<and>
   episode_step (fst (HockeyEnv_init (sconst 0.5))) = 0 \<and>
   max_steps (fst (HockeyEnv_init (sconst 0.5))) = 300 \<and>
   fst (puck_pos (steps (replicate 0 (0, 0)) (fst (HockeyEnv_init (sconst 0.5))))) = - 5 \<and>
   fst (puck_pos (steps (replicate (Suc 0) (0, 0)) (fst (HockeyEnv_init (sconst 0.5))))) = - 4.96 \<and>
   length (run_episode zero_policy (get_observation (fst (HockeyEnv_init (sconst 0.5))))
     (fst (HockeyEnv_init (sconst 0.5)))) = 300 \<and>
   info (last (run_episode zero_policy (get_observation (fst (HockeyEnv_init (sconst 0.5))))
     (fst (HockeyEnv_init (sconst 0.5))))) ''result'' = Some ''timeout'' \<and>
   reward (last (run_episode zero_policy (get_observation (fst (HockeyEnv_init (sconst 0.5))))
     (fst (HockeyEnv_init (sconst 0.5))))) = - 10"
  using c5_zero_action_times_out [of "fst (HockeyEnv_init (sconst 0.5))" 0]
  by (simp add: init_fields step_fields)

end
